theory Spec2Isabelle
  imports Complex_Main "HOL-Library.Product_Lexorder" "HOL-Library.Char_ord"
    "HOL-Library.List_Lexorder"
begin

section \<open>Data model of app.py\<close>

text \<open>
  A spreadsheet cell as \<^verbatim>\<open>pd.read_excel\<close> delivers it: missing (NaN, NaT, None), a
  number, a text, or a timestamp. Numbers are exact rationals: float64 rounding and the
  infinities are outside this model. A timestamp is its count of nanoseconds since the
  epoch, as pandas stores it.
\<close>

datatype cell = Missing | Num rat | Text string | Stamp int

type_synonym row = "string \<Rightarrow> cell"

text \<open>A DataFrame: its column names, in order, and its rows, in order.\<close>

record dataframe =
  columns :: "string list"
  rows :: "row list"

text \<open>The exceptions the script's library calls can raise.\<close>

datatype error = KeyError | ValueError | TypeError | AttributeError | StreamlitAPIException

text \<open>Sequencing of fallible steps: the first exception ends the run.\<close>

fun ebind :: "error + 'a \<Rightarrow> ('a \<Rightarrow> error + 'b) \<Rightarrow> error + 'b" where
  "ebind (Inl e) f = Inl e"
| "ebind (Inr x) f = f x"

fun traverse :: "('a \<Rightarrow> error + 'b) \<Rightarrow> 'a list \<Rightarrow> error + 'b list" where
  "traverse f [] = Inr []"
| "traverse f (x # xs) = ebind (f x) (\<lambda>y. ebind (traverse f xs) (\<lambda>ys. Inr (y # ys)))"

fun notna :: "cell \<Rightarrow> bool" where
  "notna Missing = False"
| "notna (Num x) = True"
| "notna (Text s) = True"
| "notna (Stamp t) = True"

text \<open>
  The order in which pandas lists group keys and index labels: numbers by value, texts
  by code point, timestamps by time; numbers before texts before timestamps.
\<close>

fun cell_key :: "cell \<Rightarrow> nat \<times> rat \<times> string \<times> int" where
  "cell_key (Num x) = (0, x, [], 0)"
| "cell_key (Text s) = (1, 0, s, 0)"
| "cell_key (Stamp t) = (2, 0, [], t)"
| "cell_key Missing = (3, 0, [], 0)"

section \<open>Column mapping (lines 35-64)\<close>

text \<open>
  \<^verbatim>\<open>cols.index(col_name)\<close>: the position of the first occurrence. Python raises
  ValueError when there is none; \<open>default_index\<close> calls it only under
  \<^verbatim>\<open>col_name in cols\<close>.
\<close>

fun list_index :: "'a list \<Rightarrow> 'a \<Rightarrow> nat" where
  "list_index [] x = 0"
| "list_index (c # cs) x = (if c = x then 0 else Suc (list_index cs x))"

definition default_index :: "string \<Rightarrow> string list \<Rightarrow> nat" where
  "default_index col_name cols = (if col_name \<in> set cols then list_index cols col_name else 0)"

text \<open>
  \<^verbatim>\<open>st.sidebar.selectbox(label, options=..., index=...)\<close> before the user touches
  it: the option at \<open>index\<close>; None when there are no options; an exception when the
  index is out of range.
\<close>

definition selectbox :: "string list \<Rightarrow> nat \<Rightarrow> error + string option" where
  "selectbox options index =
     (if options = [] then Inr None
      else if index < length options then Inr (Some (options ! index))
      else Inl StreamlitAPIException)"

definition default_binding :: "string \<Rightarrow> string list \<Rightarrow> error + string option" where
  "default_binding preferred all_cols = selectbox all_cols (default_index preferred all_cols)"

text \<open>The four role bindings the sidebar yields.\<close>

record bindings =
  category_col :: string
  sales_col :: string
  date_col :: string
  satisfaction_col :: string

section \<open>Cleaning (lines 69-77)\<close>

text \<open>
  The \<^verbatim>\<open>errors=\<close> argument of \<^verbatim>\<open>pd.to_numeric\<close> and \<^verbatim>\<open>pd.to_datetime\<close>.
\<close>

datatype errors_mode = Raise | Coerce

text \<open>
  What the library reads out of a cell that is not already of the target kind: the
  number a text (or timestamp) parses to, the timestamp a text (or number) parses to,
  None when it does not parse. The parsers are pandas's, not the repository's, so they
  are parameters of the model.
\<close>

record pandas_env =
  parse_numeric :: "cell \<Rightarrow> rat option"
  parse_datetime :: "cell \<Rightarrow> int option"

fun numeric_cell :: "pandas_env \<Rightarrow> errors_mode \<Rightarrow> cell \<Rightarrow> error + cell" where
  "numeric_cell env m Missing = Inr Missing"
| "numeric_cell env m (Num x) = Inr (Num x)"
| "numeric_cell env m v =
     (case parse_numeric env v of
        Some x \<Rightarrow> Inr (Num x)
      | None \<Rightarrow> (case m of Coerce \<Rightarrow> Inr Missing | Raise \<Rightarrow> Inl ValueError))"

fun datetime_cell :: "pandas_env \<Rightarrow> errors_mode \<Rightarrow> cell \<Rightarrow> error + cell" where
  "datetime_cell env m Missing = Inr Missing"
| "datetime_cell env m (Stamp t) = Inr (Stamp t)"
| "datetime_cell env m v =
     (case parse_datetime env v of
        Some t \<Rightarrow> Inr (Stamp t)
      | None \<Rightarrow> (case m of Coerce \<Rightarrow> Inr Missing | Raise \<Rightarrow> Inl ValueError))"

definition to_numeric :: "pandas_env \<Rightarrow> errors_mode \<Rightarrow> cell list \<Rightarrow> error + cell list" where
  "to_numeric env m series = traverse (numeric_cell env m) series"

definition to_datetime :: "pandas_env \<Rightarrow> errors_mode \<Rightarrow> cell list \<Rightarrow> error + cell list" where
  "to_datetime env m series = traverse (datetime_cell env m) series"

text \<open>\<^verbatim>\<open>df[c]\<close>: KeyError when the frame has no such column.\<close>

definition get_column :: "dataframe \<Rightarrow> string \<Rightarrow> error + cell list" where
  "get_column df c =
     (if c \<in> set (columns df) then Inr (map (\<lambda>r. r c) (rows df)) else Inl KeyError)"

text \<open>\<^verbatim>\<open>df[c] = series\<close>, for a series with one value per row.\<close>

definition set_column :: "dataframe \<Rightarrow> string \<Rightarrow> cell list \<Rightarrow> dataframe" where
  "set_column df c series =
     df\<lparr>columns := (if c \<in> set (columns df) then columns df else columns df @ [c]),
        rows := map (\<lambda>(r, v). r(c := v)) (zip (rows df) series)\<rparr>"

text \<open>\<^verbatim>\<open>df.dropna(subset=...)\<close>: the rows with no missing value in the named columns.\<close>

definition dropna :: "string list \<Rightarrow> dataframe \<Rightarrow> error + dataframe" where
  "dropna subset_cols df =
     (if list_all (\<lambda>c. c \<in> set (columns df)) subset_cols
      then Inr (df\<lparr>rows := filter (\<lambda>r. list_all (\<lambda>c. notna (r c)) subset_cols) (rows df)\<rparr>)
      else Inl KeyError)"

text \<open>Lines 71 and 74: the two in-place coercions, in the script's order.\<close>

definition coerce_columns :: "pandas_env \<Rightarrow> dataframe \<Rightarrow> bindings \<Rightarrow> error + dataframe" where
  "coerce_columns env df b =
     ebind (get_column df (sales_col b)) (\<lambda>s.
     ebind (to_numeric env Coerce s) (\<lambda>s'.
     let df1 = set_column df (sales_col b) s' in
     ebind (get_column df1 (date_col b)) (\<lambda>d.
     ebind (to_datetime env Coerce d) (\<lambda>d'.
     Inr (set_column df1 (date_col b) d')))))"

text \<open>Line 77, on the coerced frame.\<close>

definition df_clean :: "pandas_env \<Rightarrow> dataframe \<Rightarrow> bindings \<Rightarrow> error + dataframe" where
  "df_clean env df b =
     ebind (coerce_columns env df b)
       (dropna [category_col b, sales_col b, date_col b])"

section \<open>Aggregation and the three tabs (lines 83-211)\<close>

text \<open>
  \<^verbatim>\<open>.sum()\<close> of one group of a column: missing values are skipped, a timestamp
  column cannot be summed (TypeError). A text cannot occur in a column that went through
  \<open>to_numeric\<close>; the model raises for it too.
\<close>

fun sum_cells :: "cell list \<Rightarrow> error + rat" where
  "sum_cells [] = Inr 0"
| "sum_cells (Missing # vs) = sum_cells vs"
| "sum_cells (Num x # vs) = ebind (sum_cells vs) (\<lambda>s. Inr (x + s))"
| "sum_cells (v # vs) = Inl TypeError"

text \<open>
  \<^verbatim>\<open>.groupby(keys)[c].sum()\<close> over the (key, value) pairs of the rows: one entry per
  distinct key, the keys in sorted order (\<open>ord\<close> is the order of the key type).
\<close>

definition groupby_sum :: "('k \<Rightarrow> 'o::linorder) \<Rightarrow> ('k \<times> cell) list \<Rightarrow> error + ('k \<times> rat) list" where
  "groupby_sum ord kvs =
     traverse
       (\<lambda>k. ebind (sum_cells (map snd (filter (\<lambda>kv. fst kv = k) kvs))) (\<lambda>s. Inr (k, s)))
       (sort_key ord (remdups (map fst kvs)))"

text \<open>\<^verbatim>\<open>.sort_values(ascending=False)\<close>, stable.\<close>

definition sort_values_desc :: "('k \<times> rat) list \<Rightarrow> ('k \<times> rat) list" where
  "sort_values_desc s = sort_key (\<lambda>kv. - snd kv) s"

text \<open>\<^verbatim>\<open>.sort_index()\<close>.\<close>

definition sort_index :: "('k \<Rightarrow> 'o::linorder) \<Rightarrow> ('k \<times> 'v) list \<Rightarrow> ('k \<times> 'v) list" where
  "sort_index ord s = sort_key (\<lambda>kv. ord (fst kv)) s"

text \<open>Lines 86-90. Rows whose key is missing belong to no group.\<close>

definition category_sales :: "dataframe \<Rightarrow> bindings \<Rightarrow> error + (cell \<times> rat) list" where
  "category_sales dfc b =
     ebind (get_column dfc (category_col b)) (\<lambda>keys.
     ebind (get_column dfc (sales_col b)) (\<lambda>vals.
     ebind (groupby_sum cell_key (filter (\<lambda>kv. notna (fst kv)) (zip keys vals))) (\<lambda>groups.
     Inr (sort_values_desc groups))))"

text \<open>
  \<^verbatim>\<open>.idxmax()\<close>: the label of the first largest value; ValueError on an empty
  series. \<^verbatim>\<open>.max()\<close>: the largest value, NaN (None) on an empty series.
\<close>

fun idxmax :: "('k \<times> 'v::linorder) list \<Rightarrow> error + 'k" where
  "idxmax [] = Inl ValueError"
| "idxmax (kv # kvs) = Inr (fst (foldl (\<lambda>best x. if snd best < snd x then x else best) kv kvs))"

fun series_max :: "('k \<times> 'v::linorder) list \<Rightarrow> 'v option" where
  "series_max [] = None"
| "series_max (kv # kvs) = Some (foldl max (snd kv) (map snd kvs))"

text \<open>What a tab shows under its chart: the interpretation or the warning.\<close>

datatype tab1_view = CategoryInterpretation cell "rat option" | NoCategoryData

text \<open>Lines 86-118.\<close>

definition tab1 :: "dataframe \<Rightarrow> bindings \<Rightarrow> error + tab1_view" where
  "tab1 dfc b =
     ebind (category_sales dfc b) (\<lambda>cs.
     if cs \<noteq> [] then
       ebind (idxmax cs) (\<lambda>top_category.
       Inr (CategoryInterpretation top_category (series_max cs)))
     else Inr NoCategoryData)"

definition ns_per_day :: int where
  "ns_per_day = 86400000000000"

text \<open>
  \<^verbatim>\<open>.dt.date\<close> of one value: the calendar date, as days since the epoch; NaT has
  none; the accessor exists only on a datetime column.
\<close>

fun dt_date :: "cell \<Rightarrow> error + int option" where
  "dt_date (Stamp t) = Inr (Some (t div ns_per_day))"
| "dt_date Missing = Inr None"
| "dt_date v = Inl AttributeError"

text \<open>Lines 129-133.\<close>

definition daily_sales :: "dataframe \<Rightarrow> bindings \<Rightarrow> error + (int \<times> rat) list" where
  "daily_sales time_df b =
     ebind (get_column time_df (date_col b)) (\<lambda>d.
     ebind (traverse dt_date d) (\<lambda>dates.
     ebind (get_column time_df (sales_col b)) (\<lambda>vals.
     ebind (groupby_sum id
              (List.map_filter (\<lambda>kv. map_option (\<lambda>k. (k, snd kv)) (fst kv)) (zip dates vals)))
       (\<lambda>groups.
     Inr (sort_index id groups)))))"

text \<open>Lines 152-157.\<close>

definition trend :: "rat \<Rightarrow> rat \<Rightarrow> string" where
  "trend first_val last_val =
     (if last_val > first_val then ''increased''
      else if last_val < first_val then ''decreased''
      else ''stayed about the same'')"

datatype tab2_view =
  NoTimeData | TrendInterpretation int int string | SinglePointInterpretation

text \<open>Lines 149-174.\<close>

definition interpret_daily :: "(int \<times> rat) list \<Rightarrow> tab2_view" where
  "interpret_daily ds =
     (if length ds > 1 then
        TrendInterpretation (fst (hd ds)) (fst (last ds)) (trend (snd (hd ds)) (snd (last ds)))
      else SinglePointInterpretation)"

text \<open>Line 124.\<close>

definition time_df :: "dataframe \<Rightarrow> bindings \<Rightarrow> error + dataframe" where
  "time_df dfc b = dropna [date_col b, sales_col b] dfc"

text \<open>Lines 124-174.\<close>

definition tab2 :: "dataframe \<Rightarrow> bindings \<Rightarrow> error + tab2_view" where
  "tab2 dfc b =
     ebind (time_df dfc b) (\<lambda>tdf.
     if rows tdf = [] then Inr NoTimeData
     else ebind (daily_sales tdf b) (\<lambda>ds. Inr (interpret_daily ds)))"

text \<open>\<^verbatim>\<open>Series.dropna()\<close>.\<close>

definition dropna_series :: "cell list \<Rightarrow> cell list" where
  "dropna_series s = filter notna s"

text \<open>
  \<^verbatim>\<open>.value_counts()\<close>: one entry per distinct non-missing value with the number of
  its occurrences, the most frequent first.
\<close>

definition value_counts :: "cell list \<Rightarrow> (cell \<times> nat) list" where
  "value_counts s =
     sort_key (\<lambda>kc. - int (snd kc))
       (map (\<lambda>k. (k, count_list s k)) (remdups (filter notna s)))"

text \<open>Lines 185-186.\<close>

definition rating_counts :: "pandas_env \<Rightarrow> cell list \<Rightarrow> error + (cell \<times> nat) list" where
  "rating_counts env sat_series =
     ebind (to_numeric env Coerce sat_series) (\<lambda>s.
     Inr (sort_index cell_key (value_counts (dropna_series s))))"

datatype tab3_view = NoRatingData | RatingInterpretation cell "nat option"

text \<open>Lines 180-211. \<open>df\<close> is the frame as lines 71 and 74 left it.\<close>

definition tab3 :: "pandas_env \<Rightarrow> dataframe \<Rightarrow> bindings \<Rightarrow> error + tab3_view" where
  "tab3 env df b =
     ebind (get_column df (satisfaction_col b)) (\<lambda>col.
     let sat_series = dropna_series col in
     if sat_series = [] then Inr NoRatingData
     else
       ebind (rating_counts env sat_series) (\<lambda>rc.
       ebind (idxmax rc) (\<lambda>most_common_rating.
       Inr (RatingInterpretation most_common_rating (series_max rc)))))"

text \<open>The script from line 69 on: what the three tabs show, or the first exception.\<close>

definition app :: "pandas_env \<Rightarrow> dataframe \<Rightarrow> bindings \<Rightarrow> error + tab1_view \<times> tab2_view \<times> tab3_view" where
  "app env df b =
     ebind (coerce_columns env df b) (\<lambda>df'.
     ebind (dropna [category_col b, sales_col b, date_col b] df') (\<lambda>dfc.
     ebind (tab1 dfc b) (\<lambda>v1.
     ebind (tab2 dfc b) (\<lambda>v2.
     ebind (tab3 env df' b) (\<lambda>v3.
     Inr (v1, v2, v3))))))"

section \<open>Auxiliary notions\<close>

text \<open>
  The value the \<open>Coerce\<close> mode leaves in one cell, and the row lines 71 and 74 make of
  a loaded row.
\<close>

definition coerced_numeric :: "pandas_env \<Rightarrow> cell \<Rightarrow> cell" where
  "coerced_numeric env v = (case numeric_cell env Coerce v of Inr c \<Rightarrow> c | Inl e \<Rightarrow> Missing)"

definition coerced_datetime :: "pandas_env \<Rightarrow> cell \<Rightarrow> cell" where
  "coerced_datetime env v = (case datetime_cell env Coerce v of Inr c \<Rightarrow> c | Inl e \<Rightarrow> Missing)"

definition coerced_row :: "pandas_env \<Rightarrow> bindings \<Rightarrow> row \<Rightarrow> row" where
  "coerced_row env b r =
     (let r1 = r(sales_col b := coerced_numeric env (r (sales_col b)))
      in r1(date_col b := coerced_datetime env (r1 (date_col b))))"





text \<open>
  The rating distribution as the script computes it (line 180 reads the frame that lines
  71 and 74 have rewritten), and as the specification words it: from the satisfaction
  column of the dataset as loaded.
\<close>

definition script_rating_counts :: "pandas_env \<Rightarrow> dataframe \<Rightarrow> bindings \<Rightarrow> error + (cell \<times> nat) list" where
  "script_rating_counts env df b =
     ebind (coerce_columns env df b) (\<lambda>df'.
     ebind (get_column df' (satisfaction_col b)) (\<lambda>col.
     rating_counts env (dropna_series col)))"


section \<open>Worked examples\<close>

text \<open>
  A stand-in for the library's parsers on the cells the examples use: a timestamp read
  as a number is its nanosecond count (a datetime column viewed as integers), a number
  read as a timestamp is a nanosecond count, and two texts parse.
\<close>

definition example_env :: pandas_env where
  "example_env =
     \<lparr>parse_numeric =
        (\<lambda>v. case v of
           Stamp t \<Rightarrow> Some (of_int t)
         | Text s \<Rightarrow> (if s = ''12.5'' then Some (25 / 2) else None)
         | _ \<Rightarrow> None),
      parse_datetime =
        (\<lambda>v. case v of
           Text s \<Rightarrow> (if s = ''2024-01-02'' then Some 1704153600000000000 else None)
         | Num x \<Rightarrow> Some \<lfloor>x\<rfloor>
         | _ \<Rightarrow> None)\<rparr>"

definition example_row :: "cell \<Rightarrow> cell \<Rightarrow> cell \<Rightarrow> cell \<Rightarrow> row" where
  "example_row c s d r =
     (\<lambda>col. Missing)(''Category'' := c, ''Sales'' := s, ''Date Ordered'' := d,
       ''Service Satisfaction Rating'' := r)"

text \<open>
  Six loaded rows. Rows 1, 2 and 4 clean to Scenario 1 of the specification (the second
  at 08:00 of 2024-01-01); row 3 has no numeric sales, row 5 no category, row 6 no
  readable date. The satisfaction column is Scenario 3.
\<close>

definition example_df :: dataframe where
  "example_df =
     \<lparr>columns = [''Category'', ''Sales'', ''Date Ordered'', ''Service Satisfaction Rating''],
      rows =
        [example_row (Text ''Juice'') (Num 10) (Stamp 1704067200000000000) (Num 5),
         example_row (Text ''Smoothie'') (Num 20) (Stamp 1704096000000000000) (Num 5),
         example_row (Text ''Juice'') (Text ''n/a'') (Stamp 1704153600000000000) (Text ''bad''),
         example_row (Text ''Juice'') (Num 5) (Text ''2024-01-02'') (Num 3),
         example_row Missing (Num 7) (Stamp 1704153600000000000) Missing,
         example_row (Text ''Smoothie'') (Num 4) (Text ''soon'') (Num 5)]\<rparr>"

definition example_bindings :: bindings where
  "example_bindings =
     \<lparr>category_col = ''Category'', sales_col = ''Sales'', date_col = ''Date Ordered'',
      satisfaction_col = ''Service Satisfaction Rating''\<rparr>"

text \<open>The cleaned rows of the example, column by column.\<close>

definition example_clean :: dataframe where
  "example_clean =
     \<lparr>columns = [''Category'', ''Sales'', ''Date Ordered'', ''Service Satisfaction Rating''],
      rows =
        [example_row (Text ''Juice'') (Num 10) (Stamp 1704067200000000000) (Num 5),
         example_row (Text ''Smoothie'') (Num 20) (Stamp 1704096000000000000) (Num 5),
         example_row (Text ''Juice'') (Num 5) (Stamp 1704153600000000000) (Num 3)]\<rparr>"

text \<open>
  A dataset whose ratings are all texts that are no numbers, with otherwise clean rows.
\<close>

definition unrated_df :: dataframe where
  "unrated_df =
     \<lparr>columns = [''Category'', ''Sales'', ''Date Ordered'', ''Service Satisfaction Rating''],
      rows =
        [example_row (Text ''Juice'') (Num 10) (Stamp 1704067200000000000) (Text ''good''),
         example_row (Text ''Smoothie'') (Num 20) (Stamp 1704153600000000000) (Text ''bad'')]\<rparr>"



section \<open>Column mapping: the default binding\<close>

lemma list_index_less: "x \<in> set cs \<Longrightarrow> list_index cs x < length cs"
  by (induction cs) auto

lemma nth_list_index: "x \<in> set cs \<Longrightarrow> cs ! list_index cs x = x"
  by (induction cs) auto

text \<open>
  Claim C7. For a non-empty list of column names, the default binding is the preferred
  name when the list has it and the first name of the list otherwise; either way it is a
  member of the list.
\<close>

theorem default_binding_member:
  "all_cols \<noteq> [] \<Longrightarrow>
     default_binding preferred all_cols =
       Inr (Some (if preferred \<in> set all_cols then preferred else hd all_cols)) \<and>
     (if preferred \<in> set all_cols then preferred else hd all_cols) \<in> set all_cols"
  by (simp add: default_binding_def selectbox_def default_index_def list_index_less
      nth_list_index hd_conv_nth)

theorem default_binding_member_witness:
  "[''Type'', ''Sales''] \<noteq> [] \<and>
   default_binding ''Category'' [''Type'', ''Sales''] = Inr (Some ''Type'') \<and>
   default_binding ''Sales'' [''Type'', ''Sales''] = Inr (Some ''Sales'') \<and>
   ''Type'' \<in> set [''Type'', ''Sales'']"
  using default_binding_member [of "[''Type'', ''Sales'']" "''Category''"]
    default_binding_member [of "[''Type'', ''Sales'']" "''Sales''"]
  by simp

section \<open>Cleaning: what lines 71-77 compute\<close>

lemma traverse_Inr:
  "(\<And>x. x \<in> set xs \<Longrightarrow> f x = Inr (g x)) \<Longrightarrow> traverse f xs = Inr (map g xs)"
  by (induction xs) simp_all

lemma numeric_cell_Coerce: "numeric_cell env Coerce v = Inr (coerced_numeric env v)"
  by (cases v) (simp_all add: coerced_numeric_def split: option.splits)

lemma datetime_cell_Coerce: "datetime_cell env Coerce v = Inr (coerced_datetime env v)"
  by (cases v) (simp_all add: coerced_datetime_def split: option.splits)

lemma to_numeric_Coerce: "to_numeric env Coerce s = Inr (map (coerced_numeric env) s)"
  unfolding to_numeric_def by (rule traverse_Inr) (rule numeric_cell_Coerce)

lemma to_datetime_Coerce: "to_datetime env Coerce s = Inr (map (coerced_datetime env) s)"
  unfolding to_datetime_def by (rule traverse_Inr) (rule datetime_cell_Coerce)

lemma map_zip_map: "map (\<lambda>(r, v). f r v) (zip rs (map h rs)) = map (\<lambda>r. f r (h r)) rs"
  by (induction rs) simp_all

lemma set_column_map:
  "c \<in> set (columns df) \<Longrightarrow>
     set_column df c (map h (rows df)) = df\<lparr>rows := map (\<lambda>r. r(c := h r)) (rows df)\<rparr>"
  by (simp add: set_column_def map_zip_map)

lemma coerce_columns_eq:
  "coerce_columns env df b =
     (if sales_col b \<in> set (columns df) \<and> date_col b \<in> set (columns df)
      then Inr (df\<lparr>rows := map (coerced_row env b) (rows df)\<rparr>)
      else Inl KeyError)"
proof (cases "sales_col b \<in> set (columns df)")
  case False
  then show ?thesis by (simp add: coerce_columns_def get_column_def)
next
  case True
  define df1 where "df1 = df\<lparr>rows := map (\<lambda>r. r(sales_col b := coerced_numeric env (r (sales_col b)))) (rows df)\<rparr>"
  have s1: "set_column df (sales_col b) (map (coerced_numeric env \<circ> (\<lambda>r. r (sales_col b))) (rows df)) = df1"
    using set_column_map [OF True, of "\<lambda>r. coerced_numeric env (r (sales_col b))"]
    by (simp add: df1_def comp_def)
  have c1: "columns df1 = columns df" by (simp add: df1_def)
  show ?thesis
  proof (cases "date_col b \<in> set (columns df)")
    case False
    with True show ?thesis
      by (simp add: coerce_columns_def get_column_def to_numeric_Coerce s1 c1 Let_def)
  next
    case d: True
    then have d1: "date_col b \<in> set (columns df1)" by (simp add: c1)
    have s2: "set_column df1 (date_col b) (map (coerced_datetime env \<circ> (\<lambda>r. r (date_col b))) (rows df1))
        = df\<lparr>rows := map (coerced_row env b) (rows df)\<rparr>"
      using set_column_map [OF d1, of "\<lambda>r. coerced_datetime env (r (date_col b))"]
      by (simp add: df1_def comp_def coerced_row_def Let_def)
    from True d show ?thesis
      by (simp add: coerce_columns_def get_column_def to_numeric_Coerce to_datetime_Coerce
          s1 c1 s2 Let_def)
  qed
qed





lemma df_clean_eq:
  "df_clean env df b =
     (if category_col b \<in> set (columns df) \<and> sales_col b \<in> set (columns df) \<and>
         date_col b \<in> set (columns df)
      then Inr (df\<lparr>rows :=
        filter (\<lambda>r. notna (r (category_col b)) \<and> notna (r (sales_col b)) \<and> notna (r (date_col b)))
          (map (coerced_row env b) (rows df))\<rparr>)
      else Inl KeyError)"
  by (simp add: df_clean_def coerce_columns_eq dropna_def)

lemma df_clean_Inr:
  assumes "df_clean env df b = Inr dfc"
  shows "category_col b \<in> set (columns df)" "sales_col b \<in> set (columns df)"
    "date_col b \<in> set (columns df)" "columns dfc = columns df"
    "rows dfc =
      filter (\<lambda>r. notna (r (category_col b)) \<and> notna (r (sales_col b)) \<and> notna (r (date_col b)))
        (map (coerced_row env b) (rows df))"
  using assms by (auto simp: df_clean_eq split: if_splits)

lemma df_clean_notna:
  assumes "df_clean env df b = Inr dfc" "r \<in> set (rows dfc)"
  shows "notna (r (category_col b))" "notna (r (sales_col b))" "notna (r (date_col b))"
  using assms by (auto simp: df_clean_eq split: if_splits)



lemma coerced_row_other:
  "c \<noteq> sales_col b \<Longrightarrow> c \<noteq> date_col b \<Longrightarrow> coerced_row env b r c = r c"
  by (simp add: coerced_row_def Let_def)


lemma filter_conv_nth:
  "filter P xs = map ((!) xs) (filter (\<lambda>i. P (xs ! i)) [0..<length xs])"
proof (induction xs rule: rev_induct)
  case Nil
  show ?case by simp
next
  case (snoc x xs)
  have a: "filter (\<lambda>i. P ((xs @ [x]) ! i)) [0..<length xs] = filter (\<lambda>i. P (xs ! i)) [0..<length xs]"
    by (rule filter_cong) (auto simp: nth_append)
  have b: "map ((!) (xs @ [x])) (filter (\<lambda>i. P (xs ! i)) [0..<length xs])
      = map ((!) xs) (filter (\<lambda>i. P (xs ! i)) [0..<length xs])"
    by (rule map_cong) (auto simp: nth_append)
  show ?case using snoc by (simp add: a b)
qed

lemma time_df_df_clean:
  assumes "df_clean env df b = Inr dfc"
  shows "time_df dfc b = Inr dfc"
proof -
  have "filter (\<lambda>r. notna (r (date_col b)) \<and> notna (r (sales_col b))) (rows dfc) = rows dfc"
    using df_clean_notna [OF assms] by (simp add: filter_id_conv)
  then show ?thesis
    using df_clean_Inr(2,3,4) [OF assms] by (simp add: time_df_def dropna_def)
qed

text \<open>
  Claim C9. On the cleaned frame the filter of line 124 changes nothing: \<open>time_df\<close> is
  the cleaned frame itself, so the daily summary computed behind the filter is the one
  computed without it, and tab 2 is the pipeline without the filter.
\<close>

theorem time_df_is_noop:
  assumes "df_clean env df b = Inr dfc"
  shows "time_df dfc b = Inr dfc \<and>
    ebind (time_df dfc b) (\<lambda>tdf. daily_sales tdf b) = daily_sales dfc b \<and>
    tab2 dfc b =
      (if rows dfc = [] then Inr NoTimeData
       else ebind (daily_sales dfc b) (\<lambda>ds. Inr (interpret_daily ds)))"
  by (simp add: time_df_df_clean [OF assms] tab2_def)

text \<open>
  Claim C10. Cleaning keeps the column list, and its rows are the loaded rows at the
  surviving positions, in increasing position: in every column other than the sales- and
  date-bound ones, the j-th cleaned row has the value of the loaded row it comes from.
\<close>

theorem cleaning_frame:
  assumes "df_clean env df b = Inr dfc"
  shows "\<exists>df' idx.
    coerce_columns env df b = Inr df' \<and> columns dfc = columns df \<and>
    idx = filter (\<lambda>i. notna ((rows df' ! i) (category_col b)) \<and>
                      notna ((rows df' ! i) (sales_col b)) \<and>
                      notna ((rows df' ! i) (date_col b))) [0..<length (rows df)] \<and>
    sorted_wrt (<) idx \<and> length (rows dfc) = length idx \<and>
    (\<forall>j<length idx. idx ! j < length (rows df) \<and>
       (\<forall>c. c \<noteq> sales_col b \<and> c \<noteq> date_col b \<longrightarrow>
          (rows dfc ! j) c = (rows df ! (idx ! j)) c))"
proof -
  let ?P = "\<lambda>r. notna (r (category_col b)) \<and> notna (r (sales_col b)) \<and> notna (r (date_col b))"
  define rs' where "rs' = map (coerced_row env b) (rows df)"
  define idx where "idx = filter (\<lambda>i. ?P (rs' ! i)) [0..<length (rows df)]"
  have len: "length rs' = length (rows df)" by (simp add: rs'_def)
  have 1: "coerce_columns env df b = Inr (df\<lparr>rows := rs'\<rparr>)"
    using df_clean_Inr(2,3) [OF assms] by (simp add: coerce_columns_eq rs'_def)
  have rows: "rows dfc = map ((!) rs') idx"
    using df_clean_Inr(5) [OF assms] filter_conv_nth [of ?P rs']
    by (simp add: rs'_def [symmetric] idx_def len)
  have srt: "sorted_wrt (<) idx"
    unfolding idx_def by (rule sorted_wrt_filter) simp
  have in_range: "i < length (rows df)" if "i \<in> set idx" for i
    using that by (simp add: idx_def)
  have vals: "idx ! j < length (rows df) \<and>
       (\<forall>c. c \<noteq> sales_col b \<and> c \<noteq> date_col b \<longrightarrow>
          (rows dfc ! j) c = (rows df ! (idx ! j)) c)" if "j < length idx" for j
  proof -
    have i: "idx ! j < length (rows df)" using that in_range by simp
    then have "rs' ! (idx ! j) = coerced_row env b (rows df ! (idx ! j))"
      by (simp add: rs'_def)
    with that i show ?thesis by (simp add: rows coerced_row_other)
  qed
  have "idx = filter (\<lambda>i. ?P (rows (df\<lparr>rows := rs'\<rparr>) ! i)) [0..<length (rows df)]"
    by (simp add: idx_def)
  with 1 df_clean_Inr(4) [OF assms] srt rows vals show ?thesis
    by (intro exI [of _ "df\<lparr>rows := rs'\<rparr>"] exI [of _ idx]) simp
qed

section \<open>Category totals (lines 86-90)\<close>





















section \<open>Daily totals (lines 124-133)\<close>






section \<open>Rating distribution (lines 180-186)\<close>


lemma notna_coerced_numeric: "notna (coerced_numeric env v) \<Longrightarrow> notna v"
  by (cases v) (simp_all add: coerced_numeric_def)

lemma dropna_coerced_dropna:
  "filter notna (map (coerced_numeric env) (filter notna col))
     = filter notna (map (coerced_numeric env) col)"
  by (induction col) (auto dest: notna_coerced_numeric)

lemma rating_counts_eq:
  "rating_counts env (dropna_series col)
     = Inr (sort_index cell_key (value_counts (filter notna (map (coerced_numeric env) col))))"
  by (simp add: rating_counts_def to_numeric_Coerce dropna_series_def dropna_coerced_dropna)













section \<open>Interpretations (lines 106-118, 149-174, 182-211)\<close>

text \<open>
  Claim C8. A daily summary with more than one entry is interpreted by its first and last
  entries: the label is "increased" exactly when the last total is greater than the
  first, "decreased" exactly when it is smaller, and otherwise the third label (the
  specification's "unchanged", shown as "stayed about the same"). A summary with a single
  entry gets the single-point text and no trend.
\<close>

theorem trend_three_way:
  "(1 < length ds \<longrightarrow>
      interpret_daily ds =
        TrendInterpretation (fst (ds ! 0)) (fst (ds ! (length ds - 1)))
          (trend (snd (ds ! 0)) (snd (ds ! (length ds - 1))))) \<and>
   (length ds \<le> 1 \<longrightarrow> interpret_daily ds = SinglePointInterpretation) \<and>
   (trend first_val last_val = ''increased'' \<longleftrightarrow> first_val < last_val) \<and>
   (trend first_val last_val = ''decreased'' \<longleftrightarrow> last_val < first_val) \<and>
   (trend first_val last_val = ''stayed about the same'' \<longleftrightarrow> last_val = first_val)"
proof -
  have 1: "1 < length ds \<longrightarrow>
      interpret_daily ds =
        TrendInterpretation (fst (ds ! 0)) (fst (ds ! (length ds - 1)))
          (trend (snd (ds ! 0)) (snd (ds ! (length ds - 1))))"
  proof
    assume l: "1 < length ds"
    then have "ds \<noteq> []" by auto
    then have "hd ds = ds ! 0" "last ds = ds ! (length ds - 1)"
      by (simp_all add: hd_conv_nth last_conv_nth)
    with l show "interpret_daily ds =
        TrendInterpretation (fst (ds ! 0)) (fst (ds ! (length ds - 1)))
          (trend (snd (ds ! 0)) (snd (ds ! (length ds - 1))))"
      by (simp add: interpret_daily_def)
  qed
  have 2: "length ds \<le> 1 \<longrightarrow> interpret_daily ds = SinglePointInterpretation"
    by (simp add: interpret_daily_def)
  have 3: "trend first_val last_val = ''increased'' \<longleftrightarrow> first_val < last_val"
    by (simp add: trend_def)
  have 4: "trend first_val last_val = ''decreased'' \<longleftrightarrow> last_val < first_val"
    by (auto simp: trend_def)
  have 5: "trend first_val last_val = ''stayed about the same'' \<longleftrightarrow> last_val = first_val"
    by (auto simp: trend_def)
  from 1 2 3 4 5 show ?thesis by blast
qed

theorem trend_three_way_witness:
  "1 < length [(19723 :: int, 30 :: rat), (19724, 5)] \<and>
   interpret_daily [(19723, 30), (19724, 5)] = TrendInterpretation 19723 19724 ''decreased'' \<and>
   length [(19723 :: int, 30 :: rat)] \<le> 1 \<and>
   interpret_daily [(19723, 30)] = SinglePointInterpretation \<and>
   trend 30 5 = ''decreased'' \<and> trend 5 30 = ''increased'' \<and>
   trend 5 5 = ''stayed about the same''"
proof -
  have a: "1 < length [(19723 :: int, 30 :: rat), (19724, 5)]" by simp
  have b: "length [(19723 :: int, 30 :: rat)] \<le> 1" by simp
  have c: "(5 :: rat) < 30" "(5 :: rat) = 5" by simp_all
  from trend_three_way [of "[(19723, 30), (19724, 5)]" 30 5] a c
  have 1: "interpret_daily [(19723, 30), (19724, 5)]
      = TrendInterpretation 19723 19724 (trend 30 5)" and 2: "trend 30 5 = ''decreased''"
    by simp_all
  from trend_three_way [of "[(19723, 30)]" 5 30] b c
  have 3: "interpret_daily [(19723, 30)] = SinglePointInterpretation"
    and 4: "trend 5 30 = ''increased''"
    by simp_all
  from trend_three_way [of "[]" 5 5]
  have 5: "trend 5 5 = ''stayed about the same''" by simp
  from a b 1 2 3 4 5 show ?thesis by simp
qed

text \<open>
  Claim C5 fails on the rating tab. For a dataset whose satisfaction column holds only
  texts that are no numbers, line 182 sees a non-empty series, line 185 coerces it to
  nothing, and line 201 asks an empty distribution for its most common rating: the run
  ends with ValueError instead of the warning.
\<close>

theorem tab3_raises_on_unparsable_ratings:
  "get_column unrated_df (satisfaction_col example_bindings) = Inr [Text ''good'', Text ''bad''] \<and>
   to_numeric example_env Coerce [Text ''good'', Text ''bad''] = Inr [Missing, Missing] \<and>
   rating_counts example_env (dropna_series [Text ''good'', Text ''bad'']) = Inr [] \<and>
   ebind (coerce_columns example_env unrated_df example_bindings)
     (\<lambda>df'. tab3 example_env df' example_bindings) = Inl ValueError \<and>
   app example_env unrated_df example_bindings = Inl ValueError"
  by code_simp

text \<open>
  The other empty paths do end in the warning: an empty cleaned frame on tabs 1 and 2, a
  satisfaction column of missing values only on tab 3.
\<close>

lemma empty_views:
  assumes "df_clean env df b = Inr dfc" and "rows dfc = []"
  shows "tab1 dfc b = Inr NoCategoryData" and "tab2 dfc b = Inr NoTimeData"
proof -
  have cols: "category_col b \<in> set (columns dfc)" "sales_col b \<in> set (columns dfc)"
    using df_clean_Inr(1,2,4) [OF assms(1)] by simp_all
  show "tab1 dfc b = Inr NoCategoryData"
    using cols assms(2)
    by (simp add: tab1_def category_sales_def get_column_def groupby_sum_def sort_values_desc_def)
  show "tab2 dfc b = Inr NoTimeData"
    using assms(2) by (simp add: tab2_def time_df_df_clean [OF assms(1)])
qed

lemma no_ratings_view:
  assumes "get_column df (satisfaction_col b) = Inr col" and "list_all (\<lambda>v. v = Missing) col"
  shows "tab3 env df b = Inr NoRatingData"
proof -
  have "filter notna col = []"
    using assms(2) by (auto simp: list_all_iff filter_empty_conv)
  then show ?thesis
    by (simp add: tab3_def assms(1) dropna_series_def)
qed

text \<open>
  The same on every dataset: when the satisfaction column has a non-missing value and no
  value in it is numeric, tab 3 ends with ValueError.
\<close>

lemma tab3_raises:
  assumes "get_column df (satisfaction_col b) = Inr col"
    and "filter notna col \<noteq> []"
    and "list_all (\<lambda>v. numeric_cell env Coerce v = Inr Missing) col"
  shows "tab3 env df b = Inl ValueError"
proof -
  have "coerced_numeric env v = Missing" if "v \<in> set col" for v
    using assms(3) that by (simp add: list_all_iff numeric_cell_Coerce)
  then have "filter notna (map (coerced_numeric env) col) = []"
    by (auto simp: filter_empty_conv)
  then have "rating_counts env (dropna_series col) = Inr []"
    by (simp add: rating_counts_eq value_counts_def sort_index_def)
  with assms(1,2) show ?thesis
    by (simp add: tab3_def dropna_series_def)
qed

text \<open>
  Tab 3 is built on \<open>script_rating_counts\<close>: past the emptiness test of line 182 it
  interprets exactly that distribution.
\<close>

lemma tab3_script_rating_counts:
  assumes "coerce_columns env df b = Inr df'" and "get_column df' (satisfaction_col b) = Inr col"
  shows "tab3 env df' b =
    (if dropna_series col = [] then Inr NoRatingData
     else ebind (script_rating_counts env df b) (\<lambda>rc.
          ebind (idxmax rc) (\<lambda>most_common_rating.
          Inr (RatingInterpretation most_common_rating (series_max rc)))))"
  by (simp add: tab3_def script_rating_counts_def assms Let_def)

section \<open>The worked example, and the theorems on it\<close>

lemma example_clean: "df_clean example_env example_df example_bindings = Inr example_clean"
  by (simp add: df_clean_eq example_df_def example_clean_def example_bindings_def
        coerced_row_def coerced_numeric_def coerced_datetime_def example_env_def
        example_row_def Let_def fun_eq_iff)






theorem time_df_is_noop_witness:
  "df_clean example_env example_df example_bindings = Inr example_clean \<and>
   time_df example_clean example_bindings = Inr example_clean \<and>
   rows example_clean \<noteq> [] \<and>
   tab2 example_clean example_bindings = Inr (TrendInterpretation 19723 19724 ''decreased'')"
proof -
  have n: "rows example_clean \<noteq> []" by (simp add: example_clean_def)
  have v: "ebind (daily_sales example_clean example_bindings) (\<lambda>ds. Inr (interpret_daily ds))
      = Inr (TrendInterpretation 19723 19724 ''decreased'')"
    by code_simp
  from time_df_is_noop [OF example_clean] n v
  have "time_df example_clean example_bindings = Inr example_clean"
    and "tab2 example_clean example_bindings = Inr (TrendInterpretation 19723 19724 ''decreased'')"
    by simp_all
  with example_clean n show ?thesis by simp
qed

theorem cleaning_frame_witness:
  "df_clean example_env example_df example_bindings = Inr example_clean \<and>
   columns example_clean = columns example_df \<and>
   map (\<lambda>r. (r ''Category'', r ''Service Satisfaction Rating'')) (rows example_clean)
     = map (\<lambda>i. ((rows example_df ! i) ''Category'',
                  (rows example_df ! i) ''Service Satisfaction Rating'')) [0, 1, 3]"
proof -
  from cleaning_frame [OF example_clean]
  have c: "columns example_clean = columns example_df" by blast
  have m: "map (\<lambda>r. (r ''Category'', r ''Service Satisfaction Rating'')) (rows example_clean)
     = map (\<lambda>i. ((rows example_df ! i) ''Category'',
                  (rows example_df ! i) ''Service Satisfaction Rating'')) [0, 1, 3]"
    by code_simp
  from example_clean c m show ?thesis by simp
qed

end
